theory Spec2Isabelle
  imports Main "HOL-Library.Word"
begin

section \<open>Python values used by the parser\<close>

text \<open>
  The parser in \<^verbatim>\<open>src/oralb_ble/parser.py\<close> works on Python integers, strings,
  \<^verbatim>\<open>bytes\<close> objects and dictionaries. Integers are unbounded (\<^typ>\<open>int\<close>), a
  \<^verbatim>\<open>bytes\<close> object is a list of 8-bit words, a dictionary is a partial map.
\<close>

type_synonym byte = "8 word"
type_synonym bytes = "byte list"

text \<open>The exceptions the code can raise: an unhashable dictionary key, a missing
  dictionary key, and \<^verbatim>\<open>struct.error\<close> for a buffer of the wrong size.\<close>

datatype error = TypeError | KeyError | StructError

text \<open>
  Objects that the code uses as dictionary keys for the manufacturer data: an integer,
  or a \<^verbatim>\<open>set\<close> of integers (the literal \<^verbatim>\<open>{0x00DC}\<close>).
\<close>

datatype pyobj = PyInt int | PySet "int set"

text \<open>Values stored in the result dictionary (\<^verbatim>\<open>dict[str, Any]\<close>): integers and strings.\<close>

datatype pyval = IntVal int | StrVal string

text \<open>
  \<^verbatim>\<open>key in d\<close> and \<^verbatim>\<open>d[key]\<close> on a \<^verbatim>\<open>dict\<close> hash the key first. An integer is
  hashable; a \<^verbatim>\<open>set\<close> is not, and hashing it raises \<^verbatim>\<open>TypeError\<close> whatever the
  dictionary holds.
\<close>

fun dict_contains :: "pyobj \<Rightarrow> (int \<rightharpoonup> 'v) \<Rightarrow> error + bool" where
  "dict_contains (PyInt k) d = Inr (d k \<noteq> None)"
| "dict_contains (PySet s) d = Inl TypeError"

fun dict_getitem :: "pyobj \<Rightarrow> (int \<rightharpoonup> 'v) \<Rightarrow> error + 'v" where
  "dict_getitem (PyInt k) d = (case d k of None \<Rightarrow> Inl KeyError | Some v \<Rightarrow> Inr v)"
| "dict_getitem (PySet s) d = Inl TypeError"

text \<open>\<^verbatim>\<open>d.get(key, default)\<close> with an integer key.\<close>

definition dict_get :: "(int \<rightharpoonup> 'v) \<Rightarrow> int \<Rightarrow> 'v \<Rightarrow> 'v" where
  "dict_get d k dflt = (case d k of None \<Rightarrow> dflt | Some v \<Rightarrow> v)"

text \<open>
  The slice \<^verbatim>\<open>xs[i:j]\<close> for constant bounds \<open>0 \<le> i \<le> j\<close>: Python clips both bounds
  to the length, as \<^const>\<open>take\<close> and \<^const>\<open>drop\<close> do.
\<close>

definition py_slice :: "nat \<Rightarrow> nat \<Rightarrow> 'a list \<Rightarrow> 'a list" where
  "py_slice i j xs = take (j - i) (drop i xs)"

text \<open>\<^verbatim>\<open>str(n)\<close>: the decimal rendering of an integer.\<close>

definition digit_char :: "nat \<Rightarrow> char" where
  "digit_char d = ''0123456789'' ! d"

fun str_nat :: "nat \<Rightarrow> string" where
  "str_nat n = (if n < 10 then [digit_char n] else str_nat (n div 10) @ [digit_char (n mod 10)])"

declare str_nat.simps [simp del]

definition py_str :: "int \<Rightarrow> string" where
  "py_str i = (if i < 0 then CHR ''-'' # str_nat (nat (- i)) else str_nat (nat i))"

section \<open>Module constants\<close>

text \<open>\<^verbatim>\<open>struct.Struct(">BBHBBBB").unpack\<close>: exactly eight bytes, big-endian, six
  unsigned bytes and one unsigned 16-bit field in third position; any other buffer
  size raises \<^verbatim>\<open>struct.error\<close>.\<close>

fun UNPACK_BBHBBBB :: "bytes \<Rightarrow> error + (int \<times> int \<times> int \<times> int \<times> int \<times> int \<times> int)" where
  "UNPACK_BBHBBBB [a, b, h1, h0, c, d, e, f] =
     Inr (uint a, uint b, 256 * uint h1 + uint h0, uint c, uint d, uint e, uint f)"
| "UNPACK_BBHBBBB _ = Inl StructError"

datatype Models = IOSerial7 | SmartSeries7000

record ModelDescription =
  device_type :: string
  modes :: "int \<rightharpoonup> string"

definition DEVICE_TYPES :: "Models \<rightharpoonup> ModelDescription" where
  "DEVICE_TYPES =
    [ IOSerial7 \<mapsto> \<lparr> device_type = ''IO Serial 7'',
                     modes = [ 0 \<mapsto> ''daily clean'',
                               1 \<mapsto> ''sensitive'',
                               2 \<mapsto> ''gum care'',
                               3 \<mapsto> ''whiten'',
                               4 \<mapsto> ''intense'',
                               8 \<mapsto> ''settings'' ] \<rparr>,
      SmartSeries7000 \<mapsto> \<lparr> device_type = ''Smart Series 7000'',
                     modes = [ 0 \<mapsto> ''off'',
                               1 \<mapsto> ''daily clean'',
                               2 \<mapsto> ''sensitive'',
                               3 \<mapsto> ''massage'',
                               4 \<mapsto> ''whitening'',
                               5 \<mapsto> ''deep clean'',
                               6 \<mapsto> ''tongue cleaning'',
                               7 \<mapsto> ''turbo'',
                               255 \<mapsto> ''unknown'' ] \<rparr> ]"

definition STATES :: "int \<rightharpoonup> string" where
  "STATES =
    [ 0 \<mapsto> ''unknown'',
      1 \<mapsto> ''initializing'',
      2 \<mapsto> ''idle'',
      3 \<mapsto> ''running'',
      4 \<mapsto> ''charging'',
      5 \<mapsto> ''setup'',
      6 \<mapsto> ''flight menu'',
      8 \<mapsto> ''selection menu'',
      113 \<mapsto> ''final test'',
      114 \<mapsto> ''pcb test'',
      115 \<mapsto> ''sleeping'',
      116 \<mapsto> ''transport'' ]"

definition PRESSURE :: "int \<rightharpoonup> string" where
  "PRESSURE = [ 114 \<mapsto> ''normal'', 118 \<mapsto> ''button pressed'', 178 \<mapsto> ''high'' ]"

text \<open>The module binds the name to a set literal, \<^verbatim>\<open>ORALB_MANUFACTURER = {0x00DC}\<close>.\<close>

definition ORALB_MANUFACTURER :: pyobj where
  "ORALB_MANUFACTURER = PySet {0x00DC}"

section \<open>The advertisement and the device context\<close>

text \<open>The fields of \<^verbatim>\<open>BluetoothServiceInfo\<close> that the parser reads.\<close>

record service_info =
  manufacturer_data :: "int \<rightharpoonup> bytes"
  name :: string
  address :: string

text \<open>
  Modelled from the spec: the base class \<^verbatim>\<open>BluetoothData\<close> comes from a library
  outside the repository. Its setters \<^verbatim>\<open>set_device_manufacturer\<close>,
  \<^verbatim>\<open>set_device_type\<close>, \<^verbatim>\<open>set_device_name\<close> and \<^verbatim>\<open>set_title\<close> report the
  manufacturer name, the device type and the display name/title to the caller's
  identity context; each is an assignment to one field, unset until the first call.
\<close>

record ctx =
  ctx_manufacturer :: "string option"
  ctx_device_type :: "string option"
  ctx_device_name :: "string option"
  ctx_title :: "string option"

definition set_device_manufacturer :: "string \<Rightarrow> ctx \<Rightarrow> ctx" where
  "set_device_manufacturer m self = self\<lparr> ctx_manufacturer := Some m \<rparr>"

definition set_device_type :: "string \<Rightarrow> ctx \<Rightarrow> ctx" where
  "set_device_type t self = self\<lparr> ctx_device_type := Some t \<rparr>"

definition set_device_name :: "string \<Rightarrow> ctx \<Rightarrow> ctx" where
  "set_device_name n self = self\<lparr> ctx_device_name := Some n \<rparr>"

definition set_title :: "string \<Rightarrow> ctx \<Rightarrow> ctx" where
  "set_title n self = self\<lparr> ctx_title := Some n \<rparr>"

text \<open>The dictionary \<^verbatim>\<open>result\<close> of one decode call (\<^verbatim>\<open>dict[str, Any]\<close>).\<close>

type_synonym snapshot = "string \<rightharpoonup> pyval"

text \<open>
  The three calls of \<^verbatim>\<open>_LOGGER.debug\<close>, each with the object it hands to the logger:
  the advertisement (message \<^verbatim>\<open>Parsing OralB BLE advertisement data\<close>), the payload
  (message \<^verbatim>\<open>Parsing OralB sensor\<close>) and the dictionary \<^verbatim>\<open>result\<close> (message
  \<^verbatim>\<open>OralB sensor data\<close>).
\<close>

datatype log_entry =
    ParsingAdvertisement service_info
  | ParsingSensor bytes
  | SensorData snapshot

text \<open>
  The outcome of a call, in three parts. First the exception raised or the value
  returned: both methods are annotated \<^verbatim>\<open>-> None\<close> and return \<^verbatim>\<open>None\<close> on every path
  that does not raise, so the value is \<open>None\<close> (a returned dictionary would be
  \<open>Some\<close> of it). Second the context as the call left it (assignments made before an
  exception stay). Third what the call handed to the logger, in order.
\<close>

type_synonym outcome = "(error + snapshot option) \<times> ctx \<times> log_entry list"

section \<open>The parser\<close>

text \<open>
  \<^verbatim>\<open>_process_mfr_data\<close>. The method builds the dictionary \<^verbatim>\<open>result\<close> and hands it to
  the debug logger as its last statement; it neither returns \<^verbatim>\<open>result\<close> nor stores it
  in the context, and its value is \<^verbatim>\<open>None\<close> both after the early \<^verbatim>\<open>return\<close> on a
  wrong length and after the last statement. \<^verbatim>\<open>short_address\<close> is imported from the
  library \<^verbatim>\<open>bluetooth_data_tools\<close>, outside the repository: it is a parameter, a
  function of the address string alone. The logger calls have no effect on the
  context.

  The choice of the model (the statements from \<^verbatim>\<open>device_bytes = data[4:7]\<close> to the
  end of the \<^verbatim>\<open>if\<close>/\<^verbatim>\<open>else\<close> that binds \<^verbatim>\<open>model\<close>; the bytes literal it
  compares with is the byte 0x06 followed by the characters 2 and k, that is
  0x06, 0x32, 0x6B) is a function of its own, \<open>select_model\<close>, so
  that statements can name the model.
\<close>

definition select_model :: "bytes \<Rightarrow> Models" where
  "select_model data =
    (let device_bytes = py_slice 4 7 data
     in if device_bytes = [0x06, 0x32, 0x6B] then IOSerial7 else SmartSeries7000)"

definition process_mfr_data ::
  "(string \<Rightarrow> string) \<Rightarrow> string \<Rightarrow> string \<Rightarrow> bytes \<Rightarrow> ctx \<Rightarrow> outcome" where
  "process_mfr_data short_address addr local_name data self =
    (let log = [ParsingSensor data];
         msg_length = length data in
     if msg_length \<noteq> 11 then (Inr None, self, log)
     else
       case UNPACK_BBHBBBB (py_slice 3 11 data) of
         Inl e \<Rightarrow> (Inl e, self, log)
       | Inr (state, pressure, counter, mode, sector, sector_timer, no_of_sectors) \<Rightarrow>
          (let result = Map.empty;
               result = (if state = 3 then result ++ [''toothbrush'' \<mapsto> IntVal 1]
                         else result ++ [''toothbrush'' \<mapsto> IntVal 0]);
               model = select_model data
           in
            (case DEVICE_TYPES model of
               None \<Rightarrow> (Inl KeyError, self, log)
             | Some model_info \<Rightarrow>
                (let modes = ModelDescription.modes model_info;
                     self = set_device_type (device_type model_info) self;
                     name = device_type model_info @ '' '' @ short_address addr;
                     self = set_device_name name self;
                     self = set_title name self;
                     tb_state = dict_get STATES state (''unknown state '' @ py_str state);
                     tb_mode = dict_get modes mode (''unknown mode '' @ py_str mode);
                     tb_pressure =
                       dict_get PRESSURE pressure (''unknown pressure '' @ py_str pressure);
                     tb_sector = (if sector = 254 then ''last sector''
                                  else if sector = 255 then ''no sector''
                                  else ''sector '' @ py_str sector);
                     result = result ++
                       [ ''toothbrush state'' \<mapsto> StrVal tb_state,
                         ''pressure'' \<mapsto> StrVal tb_pressure,
                         ''counter'' \<mapsto> IntVal counter,
                         ''mode'' \<mapsto> StrVal tb_mode,
                         ''sector'' \<mapsto> StrVal tb_sector,
                         ''sector timer'' \<mapsto> IntVal sector_timer,
                         ''number of sectors'' \<mapsto> IntVal no_of_sectors ];
                     log = log @ [SensorData result]
                 in (Inr None, self, log)))))"

text \<open>
  \<^verbatim>\<open>_start_update\<close>. Python looks the global \<^verbatim>\<open>ORALB_MANUFACTURER\<close> up when the
  method runs, so the body is written over the key and the method is the body at the
  module's binding. The manufacturer name is set before the membership test, as in
  the source. The call of \<^verbatim>\<open>_process_mfr_data\<close> is the last statement, so the method
  returns \<^verbatim>\<open>None\<close> unless that call raised.
\<close>

definition start_update_with :: "pyobj \<Rightarrow> (string \<Rightarrow> string) \<Rightarrow> service_info \<Rightarrow> ctx \<Rightarrow> outcome" where
  "start_update_with key short_address si self =
    (let log = [ParsingAdvertisement si];
         manufacturer_data = service_info.manufacturer_data si;
         local_name = service_info.name si;
         addr = service_info.address si;
         self = set_device_manufacturer ''OralB'' self
     in case dict_contains key manufacturer_data of
          Inl e \<Rightarrow> (Inl e, self, log)
        | Inr present \<Rightarrow>
            if \<not> present then (Inr None, self, log)
            else (case dict_getitem key manufacturer_data of
                    Inl e \<Rightarrow> (Inl e, self, log)
                  | Inr mfr_data \<Rightarrow>
                     (case process_mfr_data short_address addr local_name mfr_data self of
                        (Inl e, self, log') \<Rightarrow> (Inl e, self, log @ log')
                      | (Inr _, self, log') \<Rightarrow> (Inr None, self, log @ log'))))"

definition start_update :: "(string \<Rightarrow> string) \<Rightarrow> service_info \<Rightarrow> ctx \<Rightarrow> outcome" where
  "start_update = start_update_with ORALB_MANUFACTURER"

section \<open>Facts about the model\<close>

lemma length_eleven:
  "length (xs::'a list) = 11 \<Longrightarrow>
     \<exists>b0 b1 b2 b3 b4 b5 b6 b7 b8 b9 b10. xs = [b0, b1, b2, b3, b4, b5, b6, b7, b8, b9, b10]"
  by (auto simp: numeral_eq_Suc length_Suc_conv)

lemma DEVICE_TYPES_total: "\<exists>info. DEVICE_TYPES m = Some info"
  by (cases m) (simp_all add: DEVICE_TYPES_def)

lemma byte_range: "0 \<le> uint (b::byte) \<and> uint b \<le> 255"
  using uint_bounded [of b] by simp

lemma unpack_eleven:
  "UNPACK_BBHBBBB (py_slice 3 11 [b0, b1, b2, b3, b4, b5, b6, b7, b8, b9, b10]) =
     Inr (uint b3, uint b4, 256 * uint b5 + uint b6, uint b7, uint b8, uint b9, uint b10)"
  by (simp add: py_slice_def)

lemma select_model_eleven:
  "select_model [b0, b1, b2, b3, b4, b5, b6, b7, b8, b9, b10] =
     (if b4 = 0x06 \<and> b5 = 0x32 \<and> b6 = 0x6B then IOSerial7 else SmartSeries7000)"
  by (simp add: select_model_def py_slice_def)

lemma process_mfr_data_wrong_length:
  "length data \<noteq> 11 \<Longrightarrow>
     process_mfr_data sa addr ln data self = (Inr None, self, [ParsingSensor data])"
  by (simp add: process_mfr_data_def)

text \<open>The method returns \<^verbatim>\<open>None\<close> whenever it does not raise.\<close>

lemma process_mfr_data_returns_None:
  "fst (process_mfr_data sa addr ln data self) = Inr v \<Longrightarrow> v = None"
  by (auto simp: process_mfr_data_def Let_def
      split: if_splits sum.splits option.splits prod.splits)

text \<open>The whole effect of the method on an eleven-byte payload, written out.\<close>

lemma process_mfr_data_eleven:
  assumes "DEVICE_TYPES (select_model [b0, b1, b2, b3, b4, b5, b6, b7, b8, b9, b10]) = Some info"
  shows "process_mfr_data sa addr ln [b0, b1, b2, b3, b4, b5, b6, b7, b8, b9, b10] self =
    (Inr None,
     self\<lparr> ctx_device_type := Some (device_type info),
           ctx_device_name := Some (device_type info @ '' '' @ sa addr),
           ctx_title := Some (device_type info @ '' '' @ sa addr) \<rparr>,
     [ ParsingSensor [b0, b1, b2, b3, b4, b5, b6, b7, b8, b9, b10],
       SensorData
       [ ''toothbrush'' \<mapsto> IntVal (if uint b3 = 3 then 1 else 0),
         ''toothbrush state'' \<mapsto>
            StrVal (dict_get STATES (uint b3) (''unknown state '' @ py_str (uint b3))),
         ''pressure'' \<mapsto>
            StrVal (dict_get PRESSURE (uint b4) (''unknown pressure '' @ py_str (uint b4))),
         ''counter'' \<mapsto> IntVal (256 * uint b5 + uint b6),
         ''mode'' \<mapsto>
            StrVal (dict_get (modes info) (uint b7) (''unknown mode '' @ py_str (uint b7))),
         ''sector'' \<mapsto>
            StrVal (if uint b8 = 254 then ''last sector''
                    else if uint b8 = 255 then ''no sector''
                    else ''sector '' @ py_str (uint b8)),
         ''sector timer'' \<mapsto> IntVal (uint b9),
         ''number of sectors'' \<mapsto> IntVal (uint b10) ] ])"
  using assms
  by (simp add: process_mfr_data_def unpack_eleven Let_def set_device_type_def
      set_device_name_def set_title_def map_add_def fun_eq_iff)

text \<open>The same facts for any payload of length eleven, by position.\<close>

lemma select_model_nth:
  assumes "length data = 11"
  shows "select_model data =
     (if data ! 4 = 0x06 \<and> data ! 5 = 0x32 \<and> data ! 6 = 0x6B then IOSerial7
      else SmartSeries7000)"
proof -
  from length_eleven [OF assms] obtain b0 b1 b2 b3 b4 b5 b6 b7 b8 b9 b10
    where d: "data = [b0, b1, b2, b3, b4, b5, b6, b7, b8, b9, b10]"
    by (elim exE)
  show ?thesis unfolding d by (simp add: select_model_eleven)
qed

lemma unpack_nth:
  assumes "length data = 11"
  shows "UNPACK_BBHBBBB (py_slice 3 11 data) =
     Inr (uint (data ! 3), uint (data ! 4), 256 * uint (data ! 5) + uint (data ! 6),
          uint (data ! 7), uint (data ! 8), uint (data ! 9), uint (data ! 10))"
proof -
  from length_eleven [OF assms] obtain b0 b1 b2 b3 b4 b5 b6 b7 b8 b9 b10
    where d: "data = [b0, b1, b2, b3, b4, b5, b6, b7, b8, b9, b10]"
    by (elim exE)
  show ?thesis unfolding d by (simp add: unpack_eleven)
qed

lemma process_mfr_data_nth:
  assumes "length data = 11" and "DEVICE_TYPES (select_model data) = Some info"
  shows "process_mfr_data sa addr ln data self =
    (Inr None,
     self\<lparr> ctx_device_type := Some (device_type info),
           ctx_device_name := Some (device_type info @ '' '' @ sa addr),
           ctx_title := Some (device_type info @ '' '' @ sa addr) \<rparr>,
     [ ParsingSensor data,
       SensorData
       [ ''toothbrush'' \<mapsto> IntVal (if uint (data ! 3) = 3 then 1 else 0),
         ''toothbrush state'' \<mapsto>
            StrVal (dict_get STATES (uint (data ! 3))
                      (''unknown state '' @ py_str (uint (data ! 3)))),
         ''pressure'' \<mapsto>
            StrVal (dict_get PRESSURE (uint (data ! 4))
                      (''unknown pressure '' @ py_str (uint (data ! 4)))),
         ''counter'' \<mapsto> IntVal (256 * uint (data ! 5) + uint (data ! 6)),
         ''mode'' \<mapsto>
            StrVal (dict_get (modes info) (uint (data ! 7))
                      (''unknown mode '' @ py_str (uint (data ! 7)))),
         ''sector'' \<mapsto>
            StrVal (if uint (data ! 8) = 254 then ''last sector''
                    else if uint (data ! 8) = 255 then ''no sector''
                    else ''sector '' @ py_str (uint (data ! 8))),
         ''sector timer'' \<mapsto> IntVal (uint (data ! 9)),
         ''number of sectors'' \<mapsto> IntVal (uint (data ! 10)) ] ])"
proof -
  from length_eleven [OF assms(1)] obtain b0 b1 b2 b3 b4 b5 b6 b7 b8 b9 b10
    where d: "data = [b0, b1, b2, b3, b4, b5, b6, b7, b8, b9, b10]"
    by (elim exE)
  show ?thesis
    using assms(2) unfolding d by (simp add: process_mfr_data_eleven)
qed

lemma snapshot_keys:
  "dom [ ''toothbrush'' \<mapsto> a, ''toothbrush state'' \<mapsto> b, ''pressure'' \<mapsto> c,
         ''counter'' \<mapsto> d, ''mode'' \<mapsto> e, ''sector'' \<mapsto> f, ''sector timer'' \<mapsto> g,
         ''number of sectors'' \<mapsto> (h::pyval) ] =
     {''toothbrush'', ''toothbrush state'', ''pressure'', ''counter'',
      ''mode'', ''sector'', ''sector timer'', ''number of sectors''}"
  by auto

text \<open>\<^verbatim>\<open>str\<close> on small numbers, as the labels use it.\<close>

lemma py_str_examples:
  "py_str 0 = ''0'' \<and> py_str 7 = ''7'' \<and> py_str 110 = ''110'' \<and> py_str 254 = ''254''"
  by (simp add: py_str_def str_nat.simps digit_char_def)

text \<open>
  With the module's binding of \<^verbatim>\<open>ORALB_MANUFACTURER\<close> the membership test raises for
  every advertisement, after the manufacturer name has been set. With an integer key
  the same body is the filter on that key.
\<close>

lemma start_update_raises:
  "start_update sa si self =
     (Inl TypeError, set_device_manufacturer ''OralB'' self, [ParsingAdvertisement si])"
  by (simp add: start_update_def start_update_with_def ORALB_MANUFACTURER_def)

lemma start_update_with_int_key:
  "start_update_with (PyInt k) sa si self =
     (case manufacturer_data si k of
        None \<Rightarrow>
          (Inr None, set_device_manufacturer ''OralB'' self, [ParsingAdvertisement si])
      | Some mfr_data \<Rightarrow>
         (case process_mfr_data sa (address si) (name si) mfr_data
                 (set_device_manufacturer ''OralB'' self) of
            (res, self', log') \<Rightarrow> (res, self', ParsingAdvertisement si # log')))"
proof (cases "manufacturer_data si k")
  case None
  then show ?thesis by (simp add: start_update_with_def)
next
  case (Some mfr_data)
  obtain res self' log' where run:
    "process_mfr_data sa (address si) (name si) mfr_data
       (set_device_manufacturer ''OralB'' self) = (res, self', log')"
    using prod_cases3 by blast
  have "v = None" if "res = Inr v" for v
    using that process_mfr_data_returns_None [of sa "address si" "name si" mfr_data
        "set_device_manufacturer ''OralB'' self" v] run by simp
  then show ?thesis
    using Some run by (cases res) (simp_all add: start_update_with_def)
qed

lemma start_update_with_int_key_absent:
  "manufacturer_data si k = None \<Longrightarrow>
     start_update_with (PyInt k) sa si self =
       (Inr None, set_device_manufacturer ''OralB'' self, [ParsingAdvertisement si])"
  by (simp add: start_update_with_int_key)

section \<open>The manufacturer filter\<close>

text \<open>
  C1. The claim: the payload is selected for decoding exactly when the manufacturer
  data has the key 0x00DC, and the bytes under that key go to the frame decoder.
  The code evaluated at an advertisement that has the key 0x00DC with an eleven-byte
  payload: the key is present, yet the call raises \<^verbatim>\<open>TypeError\<close> at the membership
  test and the frame decoder is never reached (no device type, name or title is set,
  and the logger has seen the advertisement only).
\<close>

theorem C1_start_update_raises_on_vendor_payload:
  "dict_contains (PyInt 0x00DC)
     (manufacturer_data
        \<lparr> manufacturer_data = [0x00DC \<mapsto> [0, 0, 0, 3, 0x6E, 4, 0, 1, 0, 1, 5]],
          name = ''Oral-B Toothbrush'', address = ''78:DB:2F:C1:12:34'' \<rparr>) = Inr True
   \<and> start_update id
       \<lparr> manufacturer_data = [0x00DC \<mapsto> [0, 0, 0, 3, 0x6E, 4, 0, 1, 0, 1, 5]],
         name = ''Oral-B Toothbrush'', address = ''78:DB:2F:C1:12:34'' \<rparr>
       \<lparr> ctx_manufacturer = None, ctx_device_type = None,
         ctx_device_name = None, ctx_title = None \<rparr>
     = (Inl TypeError,
        \<lparr> ctx_manufacturer = Some ''OralB'', ctx_device_type = None,
          ctx_device_name = None, ctx_title = None \<rparr>,
        [ParsingAdvertisement
           \<lparr> manufacturer_data = [0x00DC \<mapsto> [0, 0, 0, 3, 0x6E, 4, 0, 1, 0, 1, 5]],
             name = ''Oral-B Toothbrush'', address = ''78:DB:2F:C1:12:34'' \<rparr>])"
  by (simp add: start_update_def start_update_with_def ORALB_MANUFACTURER_def
      set_device_manufacturer_def)

text \<open>
  C2, as stated: when the vendor identifier is absent the call ends with no snapshot
  and no effect on the context. It fails on an advertisement that carries only
  another vendor's data: the call does not return (it raises), the context is not
  what it was, and the manufacturer name is \<open>OralB\<close> afterwards.
\<close>

theorem C2_counterexample:
  "manufacturer_data
      \<lparr> manufacturer_data = [0x004C \<mapsto> [2, 21]], name = ''beacon'',
        address = ''AA:BB:CC:DD:EE:FF'' \<rparr> 0x00DC = None
   \<and> fst (start_update id
       \<lparr> manufacturer_data = [0x004C \<mapsto> [2, 21]], name = ''beacon'',
         address = ''AA:BB:CC:DD:EE:FF'' \<rparr>
       \<lparr> ctx_manufacturer = None, ctx_device_type = None,
         ctx_device_name = None, ctx_title = None \<rparr>) \<noteq> Inr None
   \<and> fst (snd (start_update id
       \<lparr> manufacturer_data = [0x004C \<mapsto> [2, 21]], name = ''beacon'',
         address = ''AA:BB:CC:DD:EE:FF'' \<rparr>
       \<lparr> ctx_manufacturer = None, ctx_device_type = None,
         ctx_device_name = None, ctx_title = None \<rparr>))
     \<noteq> \<lparr> ctx_manufacturer = None, ctx_device_type = None,
          ctx_device_name = None, ctx_title = None \<rparr>
   \<and> ctx_manufacturer (fst (snd (start_update id
       \<lparr> manufacturer_data = [0x004C \<mapsto> [2, 21]], name = ''beacon'',
         address = ''AA:BB:CC:DD:EE:FF'' \<rparr>
       \<lparr> ctx_manufacturer = None, ctx_device_type = None,
         ctx_device_name = None, ctx_title = None \<rparr>))) = Some ''OralB''"
  by (simp add: start_update_def start_update_with_def ORALB_MANUFACTURER_def
      set_device_manufacturer_def)

text \<open>
  C2, amended: when the manufacturer data does not contain the vendor identifier,
  the call produces no snapshot (it returns no dictionary and hands none to the
  logger) and leaves device type, display name and title as they were; the
  manufacturer name is set to \<open>OralB\<close>, because the method sets it before it looks
  the identifier up.
\<close>

theorem C2_absent_vendor:
  assumes "manufacturer_data si 0x00DC = None"
  shows "(\<forall>r. fst (start_update sa si self) \<noteq> Inr (Some r))
       \<and> (\<forall>r. SensorData r \<notin> set (snd (snd (start_update sa si self))))
       \<and> fst (snd (start_update sa si self)) = self\<lparr> ctx_manufacturer := Some ''OralB'' \<rparr>"
  by (simp add: start_update_raises set_device_manufacturer_def)

theorem C2_absent_vendor_witness:
  "manufacturer_data
      \<lparr> manufacturer_data = [0x004C \<mapsto> [2, 21]], name = ''beacon'',
        address = ''AA:BB:CC:DD:EE:FF'' \<rparr> 0x00DC = None
   \<and> (\<forall>r. fst (start_update id
       \<lparr> manufacturer_data = [0x004C \<mapsto> [2, 21]], name = ''beacon'',
         address = ''AA:BB:CC:DD:EE:FF'' \<rparr>
       \<lparr> ctx_manufacturer = None, ctx_device_type = Some ''Smart Series 7000'',
         ctx_device_name = None, ctx_title = None \<rparr>) \<noteq> Inr (Some r))
   \<and> (\<forall>r. SensorData r \<notin> set (snd (snd (start_update id
       \<lparr> manufacturer_data = [0x004C \<mapsto> [2, 21]], name = ''beacon'',
         address = ''AA:BB:CC:DD:EE:FF'' \<rparr>
       \<lparr> ctx_manufacturer = None, ctx_device_type = Some ''Smart Series 7000'',
         ctx_device_name = None, ctx_title = None \<rparr>))))
   \<and> fst (snd (start_update id
       \<lparr> manufacturer_data = [0x004C \<mapsto> [2, 21]], name = ''beacon'',
         address = ''AA:BB:CC:DD:EE:FF'' \<rparr>
       \<lparr> ctx_manufacturer = None, ctx_device_type = Some ''Smart Series 7000'',
         ctx_device_name = None, ctx_title = None \<rparr>))
     = \<lparr> ctx_manufacturer = Some ''OralB'', ctx_device_type = Some ''Smart Series 7000'',
         ctx_device_name = None, ctx_title = None \<rparr>"
proof -
  let ?si = "\<lparr> manufacturer_data = [0x004C \<mapsto> [2, 21 :: byte]], name = ''beacon'',
        address = ''AA:BB:CC:DD:EE:FF'' \<rparr>"
  have h: "manufacturer_data ?si 0x00DC = None" by simp
  show ?thesis
    using h C2_absent_vendor [OF h, of id
        "\<lparr> ctx_manufacturer = None, ctx_device_type = Some ''Smart Series 7000'',
           ctx_device_name = None, ctx_title = None \<rparr>"]
    by simp
qed

section \<open>The frame decoder\<close>

text \<open>
  C3, as stated: a vendor payload whose length is not 11 ends the decoding silently,
  and a payload of length exactly 11 produces a complete snapshot. The second half
  fails at the eleven-byte payload \<^verbatim>\<open>00 00 00 03 6E 04 00 01 00 01 05\<close>: the method
  returns \<^verbatim>\<open>None\<close>, not a dictionary, exactly as it does for the three-byte payload
  \<^verbatim>\<open>DC 00 01\<close>, and the context it leaves holds the manufacturer, the device type,
  the name and the title and nothing else.
\<close>

theorem C3_counterexample:
  "length [0, 0, 0, 3, 0x6E, 4, 0, 1, 0, 1, 5 :: byte] = 11
   \<and> fst (process_mfr_data id ''78:DB:2F:C1:12:34'' ''Oral-B Toothbrush''
           [0, 0, 0, 3, 0x6E, 4, 0, 1, 0, 1, 5]
           \<lparr> ctx_manufacturer = Some ''OralB'', ctx_device_type = None,
             ctx_device_name = None, ctx_title = None \<rparr>) = Inr None
   \<and> fst (process_mfr_data id ''78:DB:2F:C1:12:34'' ''Oral-B Toothbrush''
           [0, 0, 0, 3, 0x6E, 4, 0, 1, 0, 1, 5]
           \<lparr> ctx_manufacturer = Some ''OralB'', ctx_device_type = None,
             ctx_device_name = None, ctx_title = None \<rparr>)
     = fst (process_mfr_data id ''78:DB:2F:C1:12:34'' ''Oral-B Toothbrush''
           [0xDC, 0x00, 0x01]
           \<lparr> ctx_manufacturer = Some ''OralB'', ctx_device_type = None,
             ctx_device_name = None, ctx_title = None \<rparr>)
   \<and> fst (snd (process_mfr_data id ''78:DB:2F:C1:12:34'' ''Oral-B Toothbrush''
           [0, 0, 0, 3, 0x6E, 4, 0, 1, 0, 1, 5]
           \<lparr> ctx_manufacturer = Some ''OralB'', ctx_device_type = None,
             ctx_device_name = None, ctx_title = None \<rparr>))
     = \<lparr> ctx_manufacturer = Some ''OralB'',
         ctx_device_type = Some ''Smart Series 7000'',
         ctx_device_name = Some ''Smart Series 7000 78:DB:2F:C1:12:34'',
         ctx_title = Some ''Smart Series 7000 78:DB:2F:C1:12:34'' \<rparr>"
  by (simp add: process_mfr_data_def py_slice_def select_model_def DEVICE_TYPES_def
      set_device_type_def set_device_name_def set_title_def Let_def)

text \<open>
  C3, amended: a vendor payload whose length is not 11 ends the decoding silently:
  the method returns \<^verbatim>\<open>None\<close>, raises nothing, builds no dictionary and leaves the
  context as it was. A payload of length exactly 11 raises nothing either: the method
  builds the complete dictionary, with all eight measurement keys, and hands it to
  the debug logger, but it returns \<^verbatim>\<open>None\<close> and stores no measurement: the context
  changes in device type, name and title only.
\<close>

theorem C3_length_gate:
  "(length data \<noteq> 11 \<longrightarrow>
      process_mfr_data sa addr ln data self = (Inr None, self, [ParsingSensor data]))
   \<and> (length data = 11 \<longrightarrow>
        (\<exists>info r.
             DEVICE_TYPES (select_model data) = Some info
           \<and> process_mfr_data sa addr ln data self
               = (Inr None,
                  self\<lparr> ctx_device_type := Some (device_type info),
                        ctx_device_name := Some (device_type info @ '' '' @ sa addr),
                        ctx_title := Some (device_type info @ '' '' @ sa addr) \<rparr>,
                  [ParsingSensor data, SensorData r])
           \<and> dom r = {''toothbrush'', ''toothbrush state'', ''pressure'', ''counter'',
                      ''mode'', ''sector'', ''sector timer'', ''number of sectors''}))"
proof (intro conjI impI)
  assume "length data \<noteq> 11"
  then show "process_mfr_data sa addr ln data self = (Inr None, self, [ParsingSensor data])"
    by (rule process_mfr_data_wrong_length)
next
  assume len: "length data = 11"
  obtain info where info: "DEVICE_TYPES (select_model data) = Some info"
    using DEVICE_TYPES_total by blast
  note run = process_mfr_data_nth [OF len info, of sa addr ln self]
  show "\<exists>info r.
             DEVICE_TYPES (select_model data) = Some info
           \<and> process_mfr_data sa addr ln data self
               = (Inr None,
                  self\<lparr> ctx_device_type := Some (device_type info),
                        ctx_device_name := Some (device_type info @ '' '' @ sa addr),
                        ctx_title := Some (device_type info @ '' '' @ sa addr) \<rparr>,
                  [ParsingSensor data, SensorData r])
           \<and> dom r = {''toothbrush'', ''toothbrush state'', ''pressure'', ''counter'',
                      ''mode'', ''sector'', ''sector timer'', ''number of sectors''}"
    using info by (simp add: run snapshot_keys del: dom_fun_upd)
qed

text \<open>
  C3, amended, at the three-byte payload \<^verbatim>\<open>DC 00 01\<close> and at the eleven-byte payload
  \<^verbatim>\<open>00 00 00 03 6E 04 00 01 00 01 05\<close>.
\<close>

theorem C3_length_gate_witness:
  "length [0xDC, 0x00, 0x01 :: byte] \<noteq> 11
   \<and> process_mfr_data id ''78:DB:2F:C1:12:34'' ''Oral-B Toothbrush'' [0xDC, 0x00, 0x01]
        \<lparr> ctx_manufacturer = Some ''OralB'', ctx_device_type = None,
          ctx_device_name = None, ctx_title = None \<rparr>
      = (Inr None,
         \<lparr> ctx_manufacturer = Some ''OralB'', ctx_device_type = None,
           ctx_device_name = None, ctx_title = None \<rparr>,
         [ParsingSensor [0xDC, 0x00, 0x01]])
   \<and> length [0, 0, 0, 3, 0x6E, 4, 0, 1, 0, 1, 5 :: byte] = 11
   \<and> (\<exists>r.
         process_mfr_data id ''78:DB:2F:C1:12:34'' ''Oral-B Toothbrush''
           [0, 0, 0, 3, 0x6E, 4, 0, 1, 0, 1, 5]
           \<lparr> ctx_manufacturer = Some ''OralB'', ctx_device_type = None,
             ctx_device_name = None, ctx_title = None \<rparr>
           = (Inr None,
              \<lparr> ctx_manufacturer = Some ''OralB'',
                ctx_device_type = Some ''Smart Series 7000'',
                ctx_device_name = Some ''Smart Series 7000 78:DB:2F:C1:12:34'',
                ctx_title = Some ''Smart Series 7000 78:DB:2F:C1:12:34'' \<rparr>,
              [ParsingSensor [0, 0, 0, 3, 0x6E, 4, 0, 1, 0, 1, 5], SensorData r])
         \<and> dom r = {''toothbrush'', ''toothbrush state'', ''pressure'', ''counter'',
                    ''mode'', ''sector'', ''sector timer'', ''number of sectors''})"
proof -
  let ?c = "\<lparr> ctx_manufacturer = Some ''OralB'', ctx_device_type = None,
             ctx_device_name = None, ctx_title = None \<rparr>"
  let ?short = "[0xDC, 0x00, 0x01 :: byte]"
  let ?full = "[0, 0, 0, 3, 0x6E, 4, 0, 1, 0, 1, 5 :: byte]"
  note t1 = C3_length_gate [of ?short id "''78:DB:2F:C1:12:34''" "''Oral-B Toothbrush''" ?c]
  note t2 = C3_length_gate [of ?full id "''78:DB:2F:C1:12:34''" "''Oral-B Toothbrush''" ?c]
  from t1 have short:
    "process_mfr_data id ''78:DB:2F:C1:12:34'' ''Oral-B Toothbrush'' ?short ?c
       = (Inr None, ?c, [ParsingSensor ?short])"
    by simp
  from t2 obtain info r where full:
      "DEVICE_TYPES (select_model ?full) = Some info"
      "process_mfr_data id ''78:DB:2F:C1:12:34'' ''Oral-B Toothbrush'' ?full ?c
         = (Inr None,
            ?c\<lparr> ctx_device_type := Some (device_type info),
                ctx_device_name := Some (device_type info @ '' '' @ id ''78:DB:2F:C1:12:34''),
                ctx_title := Some (device_type info @ '' '' @ id ''78:DB:2F:C1:12:34'') \<rparr>,
            [ParsingSensor ?full, SensorData r])"
      "dom r = {''toothbrush'', ''toothbrush state'', ''pressure'', ''counter'',
                ''mode'', ''sector'', ''sector timer'', ''number of sectors''}"
    by auto
  from full(1) have "device_type info = ''Smart Series 7000''"
    by (auto simp: select_model_def py_slice_def DEVICE_TYPES_def)
  with full(2,3) short show ?thesis
    by simp
qed

text \<open>
  In the statements below the snapshot is the dictionary \<^verbatim>\<open>result\<close> that the method
  builds and hands to the debug logger, the entry \<open>SensorData\<close> of the log; the
  method itself returns \<^verbatim>\<open>None\<close>.
\<close>

text \<open>
  C4. For a payload of length 11 the unpacking of bytes 3 to 10 succeeds and gives, in
  order, state, pressure, counter, mode, sector, sector timer and number of sectors:
  each one unsigned byte (0 to 255), except the counter, the big-endian unsigned
  16-bit value of bytes 5 and 6 (0 to 65535). The snapshot's counter, sector timer
  and number of sectors are exactly these values.
\<close>

theorem C4_unpacked_fields:
  assumes "length data = 11"
  shows "\<exists>state pressure counter mode sector sector_timer no_of_sectors r self'.
           UNPACK_BBHBBBB (py_slice 3 11 data)
             = Inr (state, pressure, counter, mode, sector, sector_timer, no_of_sectors)
         \<and> state = uint (data ! 3) \<and> 0 \<le> state \<and> state \<le> 255
         \<and> pressure = uint (data ! 4) \<and> 0 \<le> pressure \<and> pressure \<le> 255
         \<and> counter = 256 * uint (data ! 5) + uint (data ! 6)
         \<and> 0 \<le> counter \<and> counter \<le> 65535
         \<and> mode = uint (data ! 7) \<and> 0 \<le> mode \<and> mode \<le> 255
         \<and> sector = uint (data ! 8) \<and> 0 \<le> sector \<and> sector \<le> 255
         \<and> sector_timer = uint (data ! 9) \<and> 0 \<le> sector_timer \<and> sector_timer \<le> 255
         \<and> no_of_sectors = uint (data ! 10) \<and> 0 \<le> no_of_sectors \<and> no_of_sectors \<le> 255
         \<and> process_mfr_data sa addr ln data self
               = (Inr None, self', [ParsingSensor data, SensorData r])
         \<and> r ''counter'' = Some (IntVal counter)
         \<and> r ''sector timer'' = Some (IntVal sector_timer)
         \<and> r ''number of sectors'' = Some (IntVal no_of_sectors)"
proof -
  obtain info where "DEVICE_TYPES (select_model data) = Some info"
    using DEVICE_TYPES_total by blast
  note run = process_mfr_data_nth [OF assms this, of sa addr ln self]
  have counter: "0 \<le> 256 * uint (data ! 5) + uint (data ! 6)"
       "256 * uint (data ! 5) + uint (data ! 6) \<le> 65535"
    using byte_range [of "data ! 5"] byte_range [of "data ! 6"] by simp_all
  show ?thesis
    by (simp add: unpack_nth [OF assms] run byte_range counter)
qed

text \<open>
  C4 at \<^verbatim>\<open>00 00 00 03 72 01 2C 01 02 0F 04\<close>: the counter is 0x012C = 300.
\<close>

theorem C4_unpacked_fields_witness:
  "length [0, 0, 0, 3, 0x72, 0x01, 0x2C, 1, 2, 15, 4 :: byte] = 11
   \<and> UNPACK_BBHBBBB (py_slice 3 11 [0, 0, 0, 3, 0x72, 0x01, 0x2C, 1, 2, 15, 4])
       = Inr (3, 114, 300, 1, 2, 15, 4)
   \<and> (\<exists>r self'.
         process_mfr_data id ''78:DB:2F:C1:12:34'' ''Oral-B Toothbrush''
           [0, 0, 0, 3, 0x72, 0x01, 0x2C, 1, 2, 15, 4]
           \<lparr> ctx_manufacturer = Some ''OralB'', ctx_device_type = None,
             ctx_device_name = None, ctx_title = None \<rparr>
           = (Inr None, self', [ParsingSensor [0, 0, 0, 3, 0x72, 0x01, 0x2C, 1, 2, 15, 4], SensorData r])
         \<and> r ''counter'' = Some (IntVal 300)
         \<and> r ''sector timer'' = Some (IntVal 15)
         \<and> r ''number of sectors'' = Some (IntVal 4))"
proof -
  have h: "length [0, 0, 0, 3, 0x72, 0x01, 0x2C, 1, 2, 15, 4 :: byte] = 11" by simp
  show ?thesis
    using C4_unpacked_fields [OF h, of id "''78:DB:2F:C1:12:34''" "''Oral-B Toothbrush''"
      "\<lparr> ctx_manufacturer = Some ''OralB'', ctx_device_type = None,
         ctx_device_name = None, ctx_title = None \<rparr>"]
    by (auto simp: py_slice_def)
qed

text \<open>
  C5. For a payload of length 11 the model depends on bytes 4 to 6 only: it is
  \<open>IOSerial7\<close> exactly when they are 0x06, 0x32, 0x6B and \<open>SmartSeries7000\<close>
  for every other triplet; two payloads that agree on these bytes get the same
  model. There is no error path: the model has a description, the decoding ends
  without an exception and with the snapshot built, the device type reported and the
  mode table used are those of that description.
\<close>

theorem C5_model_from_signature:
  assumes "length data = 11"
  shows "(select_model data = IOSerial7
            \<longleftrightarrow> data ! 4 = 0x06 \<and> data ! 5 = 0x32 \<and> data ! 6 = 0x6B)
       \<and> (select_model data = SmartSeries7000
            \<longleftrightarrow> \<not> (data ! 4 = 0x06 \<and> data ! 5 = 0x32 \<and> data ! 6 = 0x6B))
       \<and> (\<forall>data'. length data' = 11 \<and> data' ! 4 = data ! 4 \<and> data' ! 5 = data ! 5
                   \<and> data' ! 6 = data ! 6
              \<longrightarrow> select_model data' = select_model data)
       \<and> (\<exists>info r self'.
             DEVICE_TYPES (select_model data) = Some info
           \<and> process_mfr_data sa addr ln data self
               = (Inr None, self', [ParsingSensor data, SensorData r])
           \<and> ctx_device_type self' = Some (device_type info)
           \<and> r ''mode'' = Some (StrVal (dict_get (modes info) (uint (data ! 7))
                                          (''unknown mode '' @ py_str (uint (data ! 7))))))"
proof -
  obtain info where "DEVICE_TYPES (select_model data) = Some info"
    using DEVICE_TYPES_total by blast
  note run = process_mfr_data_nth [OF assms this, of sa addr ln self]
  have "\<exists>info r self'.
             DEVICE_TYPES (select_model data) = Some info
           \<and> process_mfr_data sa addr ln data self
               = (Inr None, self', [ParsingSensor data, SensorData r])
           \<and> ctx_device_type self' = Some (device_type info)
           \<and> r ''mode'' = Some (StrVal (dict_get (modes info) (uint (data ! 7))
                                          (''unknown mode '' @ py_str (uint (data ! 7)))))"
    using \<open>DEVICE_TYPES (select_model data) = Some info\<close> by (simp add: run)
  moreover have "\<forall>data'. length data' = 11 \<and> data' ! 4 = data ! 4 \<and> data' ! 5 = data ! 5
                   \<and> data' ! 6 = data ! 6
              \<longrightarrow> select_model data' = select_model data"
    by (simp add: select_model_nth assms)
  ultimately show ?thesis
    by (simp add: select_model_nth [OF assms])
qed

text \<open>
  C5 at a payload with the signature 06 32 6B and at one that differs from it in the
  last signature byte only; mode code 1 reads \<open>sensitive\<close> for the first model and
  \<open>daily clean\<close> for the second.
\<close>

theorem C5_model_from_signature_witness:
  "length [0, 0, 0, 3, 0x06, 0x32, 0x6B, 1, 2, 15, 4 :: byte] = 11
   \<and> select_model [0, 0, 0, 3, 0x06, 0x32, 0x6B, 1, 2, 15, 4] = IOSerial7
   \<and> (\<exists>r self'.
         process_mfr_data id ''78:DB:2F:C1:12:34'' ''Oral-B Toothbrush''
           [0, 0, 0, 3, 0x06, 0x32, 0x6B, 1, 2, 15, 4]
           \<lparr> ctx_manufacturer = Some ''OralB'', ctx_device_type = None,
             ctx_device_name = None, ctx_title = None \<rparr>
           = (Inr None, self', [ParsingSensor [0, 0, 0, 3, 0x06, 0x32, 0x6B, 1, 2, 15, 4], SensorData r])
         \<and> ctx_device_type self' = Some ''IO Serial 7''
         \<and> r ''mode'' = Some (StrVal ''sensitive''))
   \<and> length [0, 0, 0, 3, 0x06, 0x32, 0x6C, 1, 2, 15, 4 :: byte] = 11
   \<and> select_model [0, 0, 0, 3, 0x06, 0x32, 0x6C, 1, 2, 15, 4] = SmartSeries7000
   \<and> (\<exists>r self'.
         process_mfr_data id ''78:DB:2F:C1:12:34'' ''Oral-B Toothbrush''
           [0, 0, 0, 3, 0x06, 0x32, 0x6C, 1, 2, 15, 4]
           \<lparr> ctx_manufacturer = Some ''OralB'', ctx_device_type = None,
             ctx_device_name = None, ctx_title = None \<rparr>
           = (Inr None, self', [ParsingSensor [0, 0, 0, 3, 0x06, 0x32, 0x6C, 1, 2, 15, 4], SensorData r])
         \<and> ctx_device_type self' = Some ''Smart Series 7000''
         \<and> r ''mode'' = Some (StrVal ''daily clean''))"
proof -
  let ?c = "\<lparr> ctx_manufacturer = Some ''OralB'', ctx_device_type = None,
             ctx_device_name = None, ctx_title = None \<rparr>"
  let ?io = "[0, 0, 0, 3, 0x06, 0x32, 0x6B, 1, 2, 15, 4 :: byte]"
  let ?ss = "[0, 0, 0, 3, 0x06, 0x32, 0x6C, 1, 2, 15, 4 :: byte]"
  have h1: "length ?io = 11" by simp
  have h2: "length ?ss = 11" by simp
  note t1 = C5_model_from_signature [OF h1, of id "''78:DB:2F:C1:12:34''" "''Oral-B Toothbrush''" ?c]
  note t2 = C5_model_from_signature [OF h2, of id "''78:DB:2F:C1:12:34''" "''Oral-B Toothbrush''" ?c]
  from t1 have m1: "select_model ?io = IOSerial7" by simp
  from t2 have m2: "select_model ?ss = SmartSeries7000" by simp
  from t1 obtain info1 r1 s1 where a1:
      "DEVICE_TYPES (select_model ?io) = Some info1"
      "process_mfr_data id ''78:DB:2F:C1:12:34'' ''Oral-B Toothbrush'' ?io ?c
         = (Inr None, s1, [ParsingSensor ?io, SensorData r1])"
      "ctx_device_type s1 = Some (device_type info1)"
      "r1 ''mode'' = Some (StrVal (dict_get (modes info1) (uint (?io ! 7))
                                          (''unknown mode '' @ py_str (uint (?io ! 7)))))"
    by blast
  from t2 obtain info2 r2 s2 where a2:
      "DEVICE_TYPES (select_model ?ss) = Some info2"
      "process_mfr_data id ''78:DB:2F:C1:12:34'' ''Oral-B Toothbrush'' ?ss ?c
         = (Inr None, s2, [ParsingSensor ?ss, SensorData r2])"
      "ctx_device_type s2 = Some (device_type info2)"
      "r2 ''mode'' = Some (StrVal (dict_get (modes info2) (uint (?ss ! 7))
                                          (''unknown mode '' @ py_str (uint (?ss ! 7)))))"
    by blast
  from a1(1) have i1: "info1 = \<lparr> device_type = ''IO Serial 7'',
                     modes = [ 0 \<mapsto> ''daily clean'', 1 \<mapsto> ''sensitive'', 2 \<mapsto> ''gum care'',
                               3 \<mapsto> ''whiten'', 4 \<mapsto> ''intense'', 8 \<mapsto> ''settings'' ] \<rparr>"
    unfolding m1 by (simp add: DEVICE_TYPES_def)
  from a2(1) have i2: "device_type info2 = ''Smart Series 7000''" "modes info2 1 = Some ''daily clean''"
    unfolding m2 by (auto simp add: DEVICE_TYPES_def)
  have "ctx_device_type s1 = Some ''IO Serial 7''" "r1 ''mode'' = Some (StrVal ''sensitive'')"
    using a1(3,4) by (simp_all add: i1 dict_get_def)
  moreover have "ctx_device_type s2 = Some ''Smart Series 7000''" "r2 ''mode'' = Some (StrVal ''daily clean'')"
    using a2(3,4) by (simp_all add: i2 dict_get_def)
  ultimately show ?thesis
    using m1 m2 a1(2) a2(2) by simp
qed

text \<open>
  C6. For a payload of length 11 the snapshot's \<open>toothbrush\<close> measurement is 1 if
  the decoded state (byte 3) equals 3, and 0 for every other state.
\<close>

theorem C6_toothbrush_flag:
  assumes "length data = 11"
  shows "\<exists>state pressure counter mode sector sector_timer no_of_sectors r self'.
           UNPACK_BBHBBBB (py_slice 3 11 data)
             = Inr (state, pressure, counter, mode, sector, sector_timer, no_of_sectors)
         \<and> state = uint (data ! 3)
         \<and> process_mfr_data sa addr ln data self
               = (Inr None, self', [ParsingSensor data, SensorData r])
         \<and> r ''toothbrush'' = Some (IntVal (if state = 3 then 1 else 0))"
proof -
  obtain info where info: "DEVICE_TYPES (select_model data) = Some info"
    using DEVICE_TYPES_total by blast
  note run = process_mfr_data_nth [OF assms info, of sa addr ln self]
  show ?thesis
    by (simp add: unpack_nth [OF assms] run)
qed

text \<open>
  C6 at a payload with state 3 and at one with state 2.
\<close>

theorem C6_toothbrush_flag_witness:
  "length [0, 0, 0, 3, 0x6E, 4, 0, 1, 0, 1, 5 :: byte] = 11
   \<and> (\<exists>r self'.
         process_mfr_data id ''78:DB:2F:C1:12:34'' ''Oral-B Toothbrush''
           [0, 0, 0, 3, 0x6E, 4, 0, 1, 0, 1, 5]
           \<lparr> ctx_manufacturer = Some ''OralB'', ctx_device_type = None,
             ctx_device_name = None, ctx_title = None \<rparr>
           = (Inr None, self', [ParsingSensor [0, 0, 0, 3, 0x6E, 4, 0, 1, 0, 1, 5], SensorData r])
         \<and> r ''toothbrush'' = Some (IntVal 1))
   \<and> length [0, 0, 0, 2, 0x72, 0, 0, 1, 0, 1, 5 :: byte] = 11
   \<and> (\<exists>r self'.
         process_mfr_data id ''78:DB:2F:C1:12:34'' ''Oral-B Toothbrush''
           [0, 0, 0, 2, 0x72, 0, 0, 1, 0, 1, 5]
           \<lparr> ctx_manufacturer = Some ''OralB'', ctx_device_type = None,
             ctx_device_name = None, ctx_title = None \<rparr>
           = (Inr None, self', [ParsingSensor [0, 0, 0, 2, 0x72, 0, 0, 1, 0, 1, 5], SensorData r])
         \<and> r ''toothbrush'' = Some (IntVal 0))"
proof -
  let ?c = "\<lparr> ctx_manufacturer = Some ''OralB'', ctx_device_type = None,
             ctx_device_name = None, ctx_title = None \<rparr>"
  have h1: "length [0, 0, 0, 3, 0x6E, 4, 0, 1, 0, 1, 5 :: byte] = 11" by simp
  have h2: "length [0, 0, 0, 2, 0x72, 0, 0, 1, 0, 1, 5 :: byte] = 11" by simp
  show ?thesis
    using C6_toothbrush_flag [OF h1, of id "''78:DB:2F:C1:12:34''" "''Oral-B Toothbrush''" ?c]
      C6_toothbrush_flag [OF h2, of id "''78:DB:2F:C1:12:34''" "''Oral-B Toothbrush''" ?c]
    by (auto simp: py_slice_def)
qed

text \<open>
  C7. For a payload of length 11, a state code that is not a key of \<open>STATES\<close>, a
  pressure code that is not a key of \<open>PRESSURE\<close> and a mode code that is not a key
  of the resolved model's mode table are each labelled \<open>unknown state\<close>,
  \<open>unknown pressure\<close>, \<open>unknown mode\<close> followed by a blank and the decimal code;
  the decoding still ends with a snapshot built that has all eight keys, not with an
  error.
\<close>

theorem C7_unknown_codes:
  assumes "length data = 11"
  shows "\<exists>state pressure counter mode sector sector_timer no_of_sectors info r self'.
           UNPACK_BBHBBBB (py_slice 3 11 data)
             = Inr (state, pressure, counter, mode, sector, sector_timer, no_of_sectors)
         \<and> DEVICE_TYPES (select_model data) = Some info
         \<and> process_mfr_data sa addr ln data self
               = (Inr None, self', [ParsingSensor data, SensorData r])
         \<and> dom r = {''toothbrush'', ''toothbrush state'', ''pressure'', ''counter'',
                    ''mode'', ''sector'', ''sector timer'', ''number of sectors''}
         \<and> (STATES state = None \<longrightarrow>
              r ''toothbrush state'' = Some (StrVal (''unknown state '' @ py_str state)))
         \<and> (PRESSURE pressure = None \<longrightarrow>
              r ''pressure'' = Some (StrVal (''unknown pressure '' @ py_str pressure)))
         \<and> (modes info mode = None \<longrightarrow>
              r ''mode'' = Some (StrVal (''unknown mode '' @ py_str mode)))"
proof -
  obtain info where info: "DEVICE_TYPES (select_model data) = Some info"
    using DEVICE_TYPES_total by blast
  note run = process_mfr_data_nth [OF assms info, of sa addr ln self]
  show ?thesis
    using info by (simp add: unpack_nth [OF assms] run dict_get_def snapshot_keys del: dom_fun_upd)
qed

text \<open>
  C7 at a payload with state 7, pressure 0 and mode 9, none of them in its table.
\<close>

theorem C7_unknown_codes_witness:
  "length [0, 0, 0, 7, 0, 0, 0, 9, 1, 2, 4 :: byte] = 11
   \<and> STATES 7 = None \<and> PRESSURE 0 = None
   \<and> (\<exists>info. DEVICE_TYPES (select_model [0, 0, 0, 7, 0, 0, 0, 9, 1, 2, 4]) = Some info
          \<and> modes info 9 = None)
   \<and> (\<exists>r self'.
         process_mfr_data id ''78:DB:2F:C1:12:34'' ''Oral-B Toothbrush''
           [0, 0, 0, 7, 0, 0, 0, 9, 1, 2, 4]
           \<lparr> ctx_manufacturer = Some ''OralB'', ctx_device_type = None,
             ctx_device_name = None, ctx_title = None \<rparr>
           = (Inr None, self', [ParsingSensor [0, 0, 0, 7, 0, 0, 0, 9, 1, 2, 4], SensorData r])
         \<and> dom r = {''toothbrush'', ''toothbrush state'', ''pressure'', ''counter'',
                    ''mode'', ''sector'', ''sector timer'', ''number of sectors''}
         \<and> r ''toothbrush state'' = Some (StrVal ''unknown state 7'')
         \<and> r ''pressure'' = Some (StrVal ''unknown pressure 0'')
         \<and> r ''mode'' = Some (StrVal ''unknown mode 9''))"
proof -
  have h: "length [0, 0, 0, 7, 0, 0, 0, 9, 1, 2, 4 :: byte] = 11" by simp
  show ?thesis
    using C7_unknown_codes [OF h, of id "''78:DB:2F:C1:12:34''" "''Oral-B Toothbrush''"
      "\<lparr> ctx_manufacturer = Some ''OralB'', ctx_device_type = None,
         ctx_device_name = None, ctx_title = None \<rparr>"]
    by (auto simp: py_slice_def select_model_def DEVICE_TYPES_def STATES_def PRESSURE_def
        py_str_def str_nat.simps digit_char_def)
qed

text \<open>
  C8. For a payload of length 11 the sector label is \<open>last sector\<close> when the
  sector field is 254, \<open>no sector\<close> when it is 255, and \<open>sector\<close>, a blank and
  the decimal value for every other value.
\<close>

theorem C8_sector_label:
  assumes "length data = 11"
  shows "\<exists>state pressure counter mode sector sector_timer no_of_sectors r self'.
           UNPACK_BBHBBBB (py_slice 3 11 data)
             = Inr (state, pressure, counter, mode, sector, sector_timer, no_of_sectors)
         \<and> process_mfr_data sa addr ln data self
               = (Inr None, self', [ParsingSensor data, SensorData r])
         \<and> r ''sector'' =
             Some (StrVal (if sector = 254 then ''last sector''
                           else if sector = 255 then ''no sector''
                           else ''sector '' @ py_str sector))"
proof -
  obtain info where info: "DEVICE_TYPES (select_model data) = Some info"
    using DEVICE_TYPES_total by blast
  note run = process_mfr_data_nth [OF assms info, of sa addr ln self]
  show ?thesis
    by (simp add: unpack_nth [OF assms] run)
qed

text \<open>
  C8 at payloads with sector 254, 255 and 123.
\<close>

theorem C8_sector_label_witness:
  "length [0, 0, 0, 3, 0x72, 0, 30, 1, 254, 15, 4 :: byte] = 11
   \<and> (\<exists>r self'.
         process_mfr_data id ''78:DB:2F:C1:12:34'' ''Oral-B Toothbrush''
           [0, 0, 0, 3, 0x72, 0, 30, 1, 254, 15, 4]
           \<lparr> ctx_manufacturer = Some ''OralB'', ctx_device_type = None,
             ctx_device_name = None, ctx_title = None \<rparr>
           = (Inr None, self', [ParsingSensor [0, 0, 0, 3, 0x72, 0, 30, 1, 254, 15, 4], SensorData r])
         \<and> r ''sector'' = Some (StrVal ''last sector''))
   \<and> length [0, 0, 0, 3, 0x72, 0, 30, 1, 255, 15, 4 :: byte] = 11
   \<and> (\<exists>r self'.
         process_mfr_data id ''78:DB:2F:C1:12:34'' ''Oral-B Toothbrush''
           [0, 0, 0, 3, 0x72, 0, 30, 1, 255, 15, 4]
           \<lparr> ctx_manufacturer = Some ''OralB'', ctx_device_type = None,
             ctx_device_name = None, ctx_title = None \<rparr>
           = (Inr None, self', [ParsingSensor [0, 0, 0, 3, 0x72, 0, 30, 1, 255, 15, 4], SensorData r])
         \<and> r ''sector'' = Some (StrVal ''no sector''))
   \<and> length [0, 0, 0, 3, 0x72, 0, 30, 1, 123, 15, 4 :: byte] = 11
   \<and> (\<exists>r self'.
         process_mfr_data id ''78:DB:2F:C1:12:34'' ''Oral-B Toothbrush''
           [0, 0, 0, 3, 0x72, 0, 30, 1, 123, 15, 4]
           \<lparr> ctx_manufacturer = Some ''OralB'', ctx_device_type = None,
             ctx_device_name = None, ctx_title = None \<rparr>
           = (Inr None, self', [ParsingSensor [0, 0, 0, 3, 0x72, 0, 30, 1, 123, 15, 4], SensorData r])
         \<and> r ''sector'' = Some (StrVal ''sector 123''))"
proof -
  let ?c = "\<lparr> ctx_manufacturer = Some ''OralB'', ctx_device_type = None,
             ctx_device_name = None, ctx_title = None \<rparr>"
  have h1: "length [0, 0, 0, 3, 0x72, 0, 30, 1, 254, 15, 4 :: byte] = 11" by simp
  have h2: "length [0, 0, 0, 3, 0x72, 0, 30, 1, 255, 15, 4 :: byte] = 11" by simp
  have h3: "length [0, 0, 0, 3, 0x72, 0, 30, 1, 123, 15, 4 :: byte] = 11" by simp
  show ?thesis
    using C8_sector_label [OF h1, of id "''78:DB:2F:C1:12:34''" "''Oral-B Toothbrush''" ?c]
      C8_sector_label [OF h2, of id "''78:DB:2F:C1:12:34''" "''Oral-B Toothbrush''" ?c]
      C8_sector_label [OF h3, of id "''78:DB:2F:C1:12:34''" "''Oral-B Toothbrush''" ?c]
    by (auto simp: py_slice_def py_str_def str_nat.simps digit_char_def)
qed

text \<open>
  C10. A payload of length 11 that is classified \<open>IOSerial7\<close> has pressure 6 and
  counter 12907 (0x326B), since the signature bytes are the pressure byte and the two
  counter bytes; 6 is not a key of \<open>PRESSURE\<close>, so the snapshot's pressure label is
  \<open>unknown pressure 6\<close> and its counter is 12907.
\<close>

theorem C10_io_series_pressure_and_counter:
  assumes "length data = 11" and "select_model data = IOSerial7"
  shows "\<exists>state pressure counter mode sector sector_timer no_of_sectors r self'.
           UNPACK_BBHBBBB (py_slice 3 11 data)
             = Inr (state, pressure, counter, mode, sector, sector_timer, no_of_sectors)
         \<and> pressure = 6 \<and> counter = 12907 \<and> PRESSURE 6 = None
         \<and> process_mfr_data sa addr ln data self
               = (Inr None, self', [ParsingSensor data, SensorData r])
         \<and> r ''pressure'' = Some (StrVal ''unknown pressure 6'')
         \<and> r ''counter'' = Some (IntVal 12907)"
proof -
  obtain info where info: "DEVICE_TYPES (select_model data) = Some info"
    using DEVICE_TYPES_total by blast
  note run = process_mfr_data_nth [OF assms(1) info, of sa addr ln self]
  from assms have sig: "data ! 4 = 0x06" "data ! 5 = 0x32" "data ! 6 = 0x6B"
    by (simp_all add: select_model_nth split: if_splits)
  have six: "py_str 6 = ''6''"
    by (simp add: py_str_def str_nat.simps digit_char_def)
  have absent: "PRESSURE 6 = None"
    by (simp add: PRESSURE_def)
  show ?thesis
    by (simp add: unpack_nth [OF assms(1)] run sig dict_get_def absent six)
qed

text \<open>
  C10 at a payload with the signature 06 32 6B.
\<close>

theorem C10_io_series_pressure_and_counter_witness:
  "length [0, 0, 0, 3, 0x06, 0x32, 0x6B, 1, 2, 15, 4 :: byte] = 11
   \<and> select_model [0, 0, 0, 3, 0x06, 0x32, 0x6B, 1, 2, 15, 4] = IOSerial7
   \<and> UNPACK_BBHBBBB (py_slice 3 11 [0, 0, 0, 3, 0x06, 0x32, 0x6B, 1, 2, 15, 4])
       = Inr (3, 6, 12907, 1, 2, 15, 4)
   \<and> (\<exists>r self'.
         process_mfr_data id ''78:DB:2F:C1:12:34'' ''Oral-B Toothbrush''
           [0, 0, 0, 3, 0x06, 0x32, 0x6B, 1, 2, 15, 4]
           \<lparr> ctx_manufacturer = Some ''OralB'', ctx_device_type = None,
             ctx_device_name = None, ctx_title = None \<rparr>
           = (Inr None, self', [ParsingSensor [0, 0, 0, 3, 0x06, 0x32, 0x6B, 1, 2, 15, 4], SensorData r])
         \<and> r ''pressure'' = Some (StrVal ''unknown pressure 6'')
         \<and> r ''counter'' = Some (IntVal 12907))"
proof -
  have h: "length [0, 0, 0, 3, 0x06, 0x32, 0x6B, 1, 2, 15, 4 :: byte] = 11" by simp
  have m: "select_model [0, 0, 0, 3, 0x06, 0x32, 0x6B, 1, 2, 15, 4] = IOSerial7"
    by (simp add: select_model_def py_slice_def)
  show ?thesis
    using h m C10_io_series_pressure_and_counter [OF h m, of id "''78:DB:2F:C1:12:34''"
      "''Oral-B Toothbrush''"
      "\<lparr> ctx_manufacturer = Some ''OralB'', ctx_device_type = None,
         ctx_device_name = None, ctx_title = None \<rparr>"]
    by (auto simp: py_slice_def)
qed

section \<open>The lookup tables\<close>

text \<open>
  C9, as stated: the state table has exactly 11 entries (and the pressure table 3).
  The state table of the code does not have 11 entries.
\<close>

theorem C9_counterexample: "card (dom STATES) \<noteq> 11"
  by (simp add: STATES_def)

text \<open>
  C9, amended: the state table \<^verbatim>\<open>STATES\<close> has exactly 12 entries and the pressure
  table \<^verbatim>\<open>PRESSURE\<close> has exactly 3.
\<close>

theorem C9_table_sizes: "card (dom STATES) = 12 \<and> card (dom PRESSURE) = 3"
  by (simp add: STATES_def PRESSURE_def)

end
